theory Spec2Isabelle
  imports Main
begin

section \<open>Python values used by \<^verbatim>\<open>Website/app.py\<close>\<close>

text \<open>
  The module is a Flask application: three series formatters over price bars fetched
  with yfinance, and a decision endpoint that asks a text model for BUY, SELL or HOLD.
  Everything outside the module (the market-data provider, the clock, the text model,
  the process environment) is a parameter of the model; everything the module itself
  computes is a definition below, in the order of the source.

  Text is modelled over the ASCII alphabet, one \<^typ>\<open>char\<close> per code point.
\<close>

subsection \<open>Exceptions\<close>

text \<open>
  An exception caught by \<^verbatim>\<open>except Exception as e\<close>: its class name and
  \<^verbatim>\<open>str(e)\<close>.
\<close>

datatype exn = PyExc (exc_type: string) (exc_str: string)

definition squote :: "string \<Rightarrow> string" where
  "squote s = [CHR 0x27] @ s @ [CHR 0x27]"

definition KeyError :: "string \<Rightarrow> exn" where
  "KeyError k = PyExc ''KeyError'' (squote k)"

definition NameError :: "string \<Rightarrow> exn" where
  "NameError n = PyExc ''NameError'' (''name '' @ squote n @ '' is not defined'')"

definition IndexError :: exn where
  "IndexError = PyExc ''IndexError'' ''list index out of range''"

definition OverflowError :: exn where
  "OverflowError = PyExc ''OverflowError'' ''date value out of range''"

subsection \<open>Strings\<close>

definition is_space :: "char \<Rightarrow> bool" where
  \<comment> \<open>the ASCII characters \<^verbatim>\<open>str.strip()\<close> removes: tab, line feed, vertical tab, form
      feed, carriage return, the four separators 0x1C to 0x1F, and space\<close>
  "is_space c =
     (c \<in> set [CHR 0x09, CHR 0x0A, CHR 0x0B, CHR 0x0C, CHR 0x0D,
                CHR 0x1C, CHR 0x1D, CHR 0x1E, CHR 0x1F, CHR 0x20])"

definition str_strip :: "string \<Rightarrow> string" where
  "str_strip s = rev (dropWhile is_space (rev (dropWhile is_space s)))"

definition upper_char :: "char \<Rightarrow> char" where
  "upper_char c =
     (case map_of (zip ''abcdefghijklmnopqrstuvwxyz'' ''ABCDEFGHIJKLMNOPQRSTUVWXYZ'') c of
        Some u \<Rightarrow> u
      | None \<Rightarrow> c)"

definition str_upper :: "string \<Rightarrow> string" where
  "str_upper s = map upper_char s"

fun str_split :: "char \<Rightarrow> string \<Rightarrow> string list" where
  "str_split c [] = [[]]"
| "str_split c (x # xs) =
     (if x = c then [] # str_split c xs
      else (case str_split c xs of
              [] \<Rightarrow> [[x]]
            | l # ls \<Rightarrow> (x # l) # ls))"

definition newline :: char where
  "newline = CHR 0x0A"

subsection \<open>Floats\<close>

text \<open>
  A Python float is an IEEE 754 double. A finite one is kept as its integer significand
  and the exponent of its last bit, \<open>Finite m e\<close> standing for \<open>m * 2^e\<close>; the
  sign of zero is not kept. \<open>fl_ratio n d s\<close> is the double nearest to
  \<open>n / d * 2^s\<close> (for \<open>d > 0\<close>), ties going to the even significand: the one
  rounding every operation below goes through.
\<close>

datatype pyfloat = Finite int int | PosInf | NegInf | NaN

function bit_length :: "int \<Rightarrow> int" where
  "bit_length n = (if n \<le> 0 then 0 else 1 + bit_length (n div 2))"
  by pat_completeness auto
termination
  by (relation "measure nat") auto

declare bit_length.simps [simp del]

definition scale2 :: "int \<Rightarrow> int \<Rightarrow> int \<Rightarrow> int \<times> int" where
  \<comment> \<open>the fraction \<open>n / d * 2^k\<close>, as a fraction of integers\<close>
  "scale2 n d k = (if 0 \<le> k then (n * 2 ^ nat k, d) else (n, d * 2 ^ nat (- k)))"

definition ilog2_ratio :: "int \<Rightarrow> int \<Rightarrow> int" where
  \<comment> \<open>\<open>\<lfloor>log\<^sub>2 (n / d)\<rfloor>\<close> for positive \<open>n\<close> and \<open>d\<close>\<close>
  "ilog2_ratio n d =
     (let k = bit_length n - bit_length d
      in case scale2 n d (- k) of (a, b) \<Rightarrow> if b \<le> a then k else k - 1)"

definition div_half_even :: "int \<Rightarrow> int \<Rightarrow> int" where
  \<comment> \<open>\<open>n / d\<close> rounded to the nearest integer, ties to even (\<open>d > 0\<close>)\<close>
  "div_half_even n d =
     (let q = n div d; r = n mod d
      in if 2 * r < d then q else if d < 2 * r then q + 1
         else if even q then q else q + 1)"

definition fzero :: pyfloat where
  "fzero = Finite 0 (- 1074)"

definition fl_ratio :: "int \<Rightarrow> int \<Rightarrow> int \<Rightarrow> pyfloat" where
  "fl_ratio n d s =
     (if n = 0 then fzero
      else
        (let e = ilog2_ratio \<bar>n\<bar> d + s;
             t = max e (- 1022) - 52
         in case scale2 \<bar>n\<bar> d (s - t) of (a, b) \<Rightarrow>
            (let m = div_half_even a b;
                 m' = (if m = 2 ^ 53 then 2 ^ 52 else m);
                 t' = (if m = 2 ^ 53 then t + 1 else t)
             in if 971 < t' then (if 0 < n then PosInf else NegInf)
                else Finite (sgn n * m') t')))"

fun fadd :: "pyfloat \<Rightarrow> pyfloat \<Rightarrow> pyfloat" where
  "fadd (Finite m1 e1) (Finite m2 e2) =
     (let e = min e1 e2
      in fl_ratio (m1 * 2 ^ nat (e1 - e) + m2 * 2 ^ nat (e2 - e)) 1 e)"
| "fadd NaN _ = NaN"
| "fadd _ NaN = NaN"
| "fadd PosInf NegInf = NaN"
| "fadd NegInf PosInf = NaN"
| "fadd PosInf _ = PosInf"
| "fadd _ PosInf = PosInf"
| "fadd NegInf _ = NegInf"
| "fadd _ NegInf = NegInf"

fun fdiv_count :: "pyfloat \<Rightarrow> nat \<Rightarrow> pyfloat" where
  \<comment> \<open>a float divided by a positive count\<close>
  "fdiv_count (Finite m e) n = fl_ratio m (int n) e"
| "fdiv_count x n = x"

fun round2 :: "pyfloat \<Rightarrow> pyfloat" where
  \<comment> \<open>\<^verbatim>\<open>round(x, 2)\<close>: the exact value of \<open>x\<close> rounded to two decimals, ties to
      even, then the nearest double of that decimal\<close>
  "round2 (Finite m e) =
     (case scale2 (m * 100) 1 e of (a, b) \<Rightarrow> fl_ratio (div_half_even a b) 100 0)"
| "round2 x = x"

definition float_of_decimal :: "int \<Rightarrow> int \<Rightarrow> pyfloat" where
  \<comment> \<open>the float a decimal literal \<open>n / d\<close> denotes\<close>
  "float_of_decimal n d = fl_ratio n d 0"

definition series_mean :: "pyfloat list \<Rightarrow> pyfloat" where
  \<comment> \<open>\<^verbatim>\<open>Series.mean()\<close>: missing values are skipped; the sum is accumulated in
      float64 from left to right and divided by the number of values present\<close>
  "series_mean xs =
     (let vs = filter (\<lambda>v. v \<noteq> NaN) xs
      in if vs = [] then NaN else fdiv_count (foldl fadd fzero vs) (length vs))"

subsection \<open>Dates and timestamps\<close>

datatype date = Date (year: int) (month: int) (day: int)

datatype timestamp = Timestamp (ts_date: date) (hour: int) (minute: int)

definition date_less :: "date \<Rightarrow> date \<Rightarrow> bool" where
  "date_less a b =
     (year a < year b \<or>
      (year a = year b \<and> (month a < month b \<or> (month a = month b \<and> day a < day b))))"

definition is_leap :: "int \<Rightarrow> bool" where
  "is_leap y = (y mod 4 = 0 \<and> (y mod 100 \<noteq> 0 \<or> y mod 400 = 0))"

definition days_in_month :: "int \<Rightarrow> int \<Rightarrow> int" where
  "days_in_month y m =
     (if m = 2 then (if is_leap y then 29 else 28)
      else if m = 4 \<or> m = 6 \<or> m = 9 \<or> m = 11 then 30 else 31)"

definition minus_one_day :: "date \<Rightarrow> exn + date" where
  \<comment> \<open>\<^verbatim>\<open>d - timedelta(days=1)\<close>; the first day of year 1 has no predecessor\<close>
  "minus_one_day d =
     (if 1 < day d then Inr (Date (year d) (month d) (day d - 1))
      else if 1 < month d
        then Inr (Date (year d) (month d - 1) (days_in_month (year d) (month d - 1)))
      else if 1 < year d then Inr (Date (year d - 1) 12 31)
      else Inl OverflowError)"

definition digit :: "int \<Rightarrow> char" where
  \<comment> \<open>the last decimal digit of \<open>n\<close>\<close>
  "digit n =
     (let k = n mod 10
      in if k = 0 then CHR ''0'' else if k = 1 then CHR ''1'' else if k = 2 then CHR ''2''
         else if k = 3 then CHR ''3'' else if k = 4 then CHR ''4'' else if k = 5 then CHR ''5''
         else if k = 6 then CHR ''6'' else if k = 7 then CHR ''7'' else if k = 8 then CHR ''8''
         else CHR ''9'')"

definition pad2 :: "int \<Rightarrow> string" where
  "pad2 n = [digit (n div 10), digit n]"

definition pad4 :: "int \<Rightarrow> string" where
  "pad4 n = [digit (n div 1000), digit (n div 100), digit (n div 10), digit n]"

definition strftime_ymd :: "timestamp \<Rightarrow> string" where
  \<comment> \<open>\<^verbatim>\<open>strftime('%Y-%m-%d')\<close>, for the four-digit years a Timestamp can hold\<close>
  "strftime_ymd t =
     pad4 (year (ts_date t)) @ ''-'' @ pad2 (month (ts_date t)) @ ''-'' @ pad2 (day (ts_date t))"

definition strftime_ym :: "timestamp \<Rightarrow> string" where
  "strftime_ym t = pad4 (year (ts_date t)) @ ''-'' @ pad2 (month (ts_date t))"

definition strftime_hm :: "timestamp \<Rightarrow> string" where
  "strftime_hm t = pad2 (hour t) @ '':'' @ pad2 (minute t)"

subsection \<open>Data frames\<close>

text \<open>
  A frame has column labels and rows; a row is its index timestamp and its cells by
  column label, a cell that is absent reading as NaN. Selecting a column the frame does
  not have raises KeyError. A frame is empty when it has no row or no column.
\<close>

type_synonym row = "timestamp \<times> (string \<times> pyfloat) list"

record dataframe =
  df_columns :: "string list"
  df_rows :: "row list"

definition df_empty :: "dataframe \<Rightarrow> bool" where
  "df_empty d = (df_rows d = [] \<or> df_columns d = [])"

definition df_index :: "dataframe \<Rightarrow> timestamp list" where
  "df_index d = map fst (df_rows d)"

definition df_where_date :: "(date \<Rightarrow> bool) \<Rightarrow> dataframe \<Rightarrow> dataframe" where
  \<comment> \<open>\<^verbatim>\<open>data[mask]\<close> for a mask computed from \<^verbatim>\<open>data.index.date\<close>\<close>
  "df_where_date P d = d\<lparr>df_rows := filter (\<lambda>r. P (ts_date (fst r))) (df_rows d)\<rparr>"

definition df_tail :: "nat \<Rightarrow> dataframe \<Rightarrow> dataframe" where
  "df_tail n d = d\<lparr>df_rows := drop (length (df_rows d) - n) (df_rows d)\<rparr>"

definition cell :: "string \<Rightarrow> row \<Rightarrow> pyfloat" where
  "cell c r = (case map_of (snd r) c of Some v \<Rightarrow> v | None \<Rightarrow> NaN)"

definition df_getitem :: "dataframe \<Rightarrow> string \<Rightarrow> exn + pyfloat list" where
  "df_getitem d c =
     (if c \<in> set (df_columns d) then Inr (map (cell c) (df_rows d)) else Inl (KeyError c))"

definition py_last :: "'a list \<Rightarrow> exn + 'a" where
  \<comment> \<open>\<^verbatim>\<open>xs[-1]\<close>\<close>
  "py_last xs = (if xs = [] then Inl IndexError else Inr (last xs))"

subsection \<open>JSON bodies\<close>

datatype json = JStr string | JInt int | JFloat pyfloat | JList "json list"

type_synonym dict = "(string \<times> json) list"

definition error_dict :: "string \<Rightarrow> dict" where
  "error_dict msg = [(''error'', JStr msg)]"

definition series_dict :: "string \<Rightarrow> string \<Rightarrow> string list \<Rightarrow> pyfloat list \<Rightarrow> dict" where
  "series_dict ticker rng labels vals =
     [(''ticker'', JStr ticker),
      (''range'', JStr rng),
      (''labels'', JList (map JStr labels)),
      (''values'', JList (map JFloat vals)),
      (''count'', JInt (int (length vals)))]"

section \<open>The world outside the module\<close>

datatype prompt = Prompt string json pyfloat "pyfloat list"

record world =
  yf_history :: "string \<Rightarrow> string \<Rightarrow> string \<Rightarrow> exn + dataframe"
  yf_info :: "string \<Rightarrow> exn + dict"
  utcnow_date :: date
  generate_content :: "prompt \<Rightarrow> exn + string"

section \<open>Market data adapter and series formatters\<close>

definition get_stock_data :: "world \<Rightarrow> string \<Rightarrow> string \<Rightarrow> string \<Rightarrow> dataframe option" where
  "get_stock_data w ticker period interval =
     (case yf_history w ticker period interval of
        Inl e \<Rightarrow> None
      | Inr data \<Rightarrow> Some data)"

definition format_daily_try :: "world \<Rightarrow> string \<Rightarrow> exn + dict" where
  "format_daily_try w ticker =
     (case get_stock_data w ticker ''1mo'' ''1d'' of
        None \<Rightarrow> Inr (error_dict ''No data available'')
      | Some data \<Rightarrow>
          if df_empty data then Inr (error_dict ''No data available'')
          else
            (let today = utcnow_date w;
                 filtered = df_where_date (\<lambda>d. date_less d today) data
             in if df_empty filtered then Inr (error_dict ''No historical data before today'')
                else
                  (let recent = df_tail 30 filtered;
                       labels = map strftime_ymd (df_index recent)
                   in case df_getitem recent ''Close'' of
                        Inl e \<Rightarrow> Inl e
                      | Inr closes \<Rightarrow>
                          Inr (series_dict ticker ''daily'' labels (map round2 closes)))))"

definition format_daily_data :: "world \<Rightarrow> string \<Rightarrow> dict" where
  "format_daily_data w ticker =
     (case format_daily_try w ticker of
        Inl e \<Rightarrow> error_dict (exc_str e)
      | Inr r \<Rightarrow> r)"

definition format_intraday_try :: "world \<Rightarrow> string \<Rightarrow> exn + dict" where
  "format_intraday_try w ticker =
     (case get_stock_data w ticker ''2d'' ''30m'' of
        None \<Rightarrow> Inr (error_dict ''No data available'')
      | Some data \<Rightarrow>
          if df_empty data then Inr (error_dict ''No data available'')
          else
            (let today = utcnow_date w
             in case minus_one_day today of
                  Inl e \<Rightarrow> Inl e
                | Inr yesterday \<Rightarrow>
                    (let filtered = df_where_date (\<lambda>d. d = yesterday) data
                     in case (if df_empty filtered \<and> \<not> df_empty data
                              then (case py_last (df_index data) of
                                      Inl e \<Rightarrow> Inl e
                                    | Inr ts \<Rightarrow>
                                        Inr (df_where_date (\<lambda>d. d = ts_date ts) data))
                              else Inr filtered) of
                          Inl e \<Rightarrow> Inl e
                        | Inr filtered \<Rightarrow>
                            if df_empty filtered
                            then Inr (error_dict ''No intraday data available'')
                            else
                              (let labels = map strftime_hm (df_index filtered)
                               in case df_getitem filtered ''Close'' of
                                    Inl e \<Rightarrow> Inl e
                                  | Inr closes \<Rightarrow>
                                      Inr (series_dict ticker ''intraday'' labels
                                             (map round2 closes))))))"

definition format_intraday_data :: "world \<Rightarrow> string \<Rightarrow> dict" where
  "format_intraday_data w ticker =
     (case format_intraday_try w ticker of
        Inl e \<Rightarrow> error_dict (exc_str e)
      | Inr r \<Rightarrow> r)"

definition format_monthly_try :: "world \<Rightarrow> string \<Rightarrow> exn + dict" where
  "format_monthly_try w ticker =
     (case get_stock_data w ticker ''1mo'' ''1d'' of
        None \<Rightarrow> Inr (error_dict ''No data available'')
      | Some data \<Rightarrow>
          if df_empty data then Inr (error_dict ''No data available'')
          else
            (case df_getitem data ''Close'' of
               Inl e \<Rightarrow> Inl e
             | Inr closes \<Rightarrow>
                 (let avg_close = round2 (series_mean closes)
                  in case py_last (df_index data) of
                       Inl e \<Rightarrow> Inl e
                     | Inr ts \<Rightarrow>
                         Inr (series_dict ticker ''monthly'' [strftime_ym ts] [avg_close]))))"

definition format_monthly_data :: "world \<Rightarrow> string \<Rightarrow> dict" where
  "format_monthly_data w ticker =
     (case format_monthly_try w ticker of
        Inl e \<Rightarrow> error_dict (exc_str e)
      | Inr r \<Rightarrow> r)"

section \<open>Decision service\<close>

subsection \<open>Module namespace\<close>

text \<open>
  The names the module binds at top level, in the order it binds them. A name that is
  looked up and is neither bound there nor a builtin raises NameError; no builtin is
  called \<^verbatim>\<open>genai\<close>.
\<close>

definition imported_names :: "string list" where
  "imported_names =
     [''Flask'', ''jsonify'', ''send_from_directory'', ''CORS'', ''yf'',
      ''datetime'', ''timedelta'', ''json'', ''os'']"

definition names_at_configure :: "string list" where
  \<comment> \<open>bound when line 13 runs\<close>
  "names_at_configure = imported_names @ [''app'', ''GEMINI_API_KEY'']"

definition module_globals :: "string list" where
  \<comment> \<open>bound once the module has been loaded\<close>
  "module_globals =
     names_at_configure @
     [''cache'', ''get_stock_data'', ''format_daily_data'', ''format_intraday_data'',
      ''format_monthly_data'', ''get_daily'', ''get_monthly'', ''get_intraday'',
      ''get_info'', ''get_decision'', ''health'', ''index'', ''serve_static'']"

definition lookup_global :: "string list \<Rightarrow> string \<Rightarrow> exn + unit" where
  "lookup_global g n = (if n \<in> set g then Inr () else Inl (NameError n))"

definition module_init :: "string list \<Rightarrow> string \<Rightarrow> exn + unit" where
  \<comment> \<open>lines 12 to 14: \<^verbatim>\<open>if GEMINI_API_KEY: genai.configure(...)\<close>\<close>
  "module_init g key = (if key \<noteq> [] then lookup_global g ''genai'' else Inr ())"

subsection \<open>Parsing the reply\<close>

definition parse_reply :: "string \<Rightarrow> exn + string \<times> string" where
  \<comment> \<open>lines 188 to 195: the action and the reason read from the reply\<close>
  "parse_reply text =
     (let lines = str_split newline (str_strip text)
      in case lines of
           [] \<Rightarrow> Inl IndexError
         | l0 # rest \<Rightarrow>
             (let action = str_upper (str_strip l0);
                  reason = (if 1 < length lines then str_strip (lines ! 1)
                            else ''AI analysis complete.'')
              in if action \<notin> set [''BUY'', ''SELL'', ''HOLD'']
                 then Inr (''HOLD'', ''Unable to determine clear action; defaulting to HOLD.'')
                 else Inr (action, reason)))"

subsection \<open>The handler\<close>

datatype call = CallHistory string string string | CallInfo string | CallGenerate prompt

definition decision_dict :: "string \<Rightarrow> string \<Rightarrow> string \<Rightarrow> dict" where
  "decision_dict ticker action reason =
     [(''ticker'', JStr ticker), (''action'', JStr action), (''reason'', JStr reason)]"

definition dict_get :: "dict \<Rightarrow> string \<Rightarrow> json \<Rightarrow> json" where
  "dict_get d k dflt = (case map_of d k of Some v \<Rightarrow> v | None \<Rightarrow> dflt)"

text \<open>
  The body of the \<^verbatim>\<open>try\<close> once a key is configured (lines 160 to 201), with the
  outbound calls it has made so far: \<open>Inl\<close> is an exception leaving the body,
  \<open>Inr\<close> a status and a JSON body returned from it.
\<close>

definition decision_try :: "string list \<Rightarrow> world \<Rightarrow> string \<Rightarrow> call list \<times> (exn + nat \<times> dict)" where
  "decision_try g w ticker =
     (let c1 = [CallHistory ticker ''5d'' ''1d'']
      in case yf_history w ticker ''5d'' ''1d'' of
           Inl e \<Rightarrow> (c1, Inl e)
         | Inr hist \<Rightarrow>
             (let c2 = c1 @ [CallInfo ticker]
              in case yf_info w ticker of
                   Inl e \<Rightarrow> (c2, Inl e)
                 | Inr info \<Rightarrow>
                     if df_empty hist then (c2, Inr (400, error_dict ''No data available''))
                     else
                       (case df_getitem hist ''Close'' of
                          Inl e \<Rightarrow> (c2, Inl e)
                        | Inr closes \<Rightarrow>
                            (let recent_prices = drop (length closes - 5) closes;
                                 current_price = (if recent_prices \<noteq> [] then last recent_prices
                                                  else fzero);
                                 prompt = Prompt ticker (dict_get info ''longName'' (JStr ticker))
                                            current_price recent_prices
                             in case lookup_global g ''genai'' of
                                  Inl e \<Rightarrow> (c2, Inl e)
                                | Inr _ \<Rightarrow>
                                    (let c3 = c2 @ [CallGenerate prompt]
                                     in case generate_content w prompt of
                                          Inl e \<Rightarrow> (c3, Inl e)
                                        | Inr text \<Rightarrow>
                                            (case parse_reply text of
                                               Inl e \<Rightarrow> (c3, Inl e)
                                             | Inr (action, reason) \<Rightarrow>
                                                 (c3, Inr (200, decision_dict ticker action
                                                                  reason))))))))"

definition get_decision :: "string list \<Rightarrow> string \<Rightarrow> world \<Rightarrow> string \<Rightarrow> call list \<times> nat \<times> dict" where
  \<comment> \<open>\<open>g\<close> is the module namespace, \<open>key\<close> the value of \<^verbatim>\<open>GEMINI_API_KEY\<close>; the
      result is the outbound calls made, the HTTP status and the JSON body\<close>
  "get_decision g key w ticker0 =
     (let ticker = str_upper ticker0
      in if key = []
         then ([], 200, decision_dict ticker ''HOLD''
                          ''No Gemini API key configured. Using default HOLD action.'')
         else
           (case decision_try g w ticker of
              (calls, Inl e) \<Rightarrow>
                (calls, 200, decision_dict ticker ''HOLD''
                               (''Error during analysis: '' @ take 50 (exc_str e)))
            | (calls, Inr (status, body)) \<Rightarrow> (calls, status, body)))"


definition is_error_shape :: "dict \<Rightarrow> bool" where
  "is_error_shape r =
     (case r of
        [(k, JStr m)] \<Rightarrow> k = ''error''
      | _ \<Rightarrow> False)"

definition is_series_shape :: "dict \<Rightarrow> bool" where
  "is_series_shape r =
     (map fst r = [''ticker'', ''range'', ''labels'', ''values'', ''count''] \<and>
      (case (map_of r ''labels'', map_of r ''values'', map_of r ''count'') of
         (Some (JList ls), Some (JList vs), Some (JInt c)) \<Rightarrow>
            int (length ls) = c \<and> int (length vs) = c
       | _ \<Rightarrow> False))"

definition one_shape :: "dict \<Rightarrow> bool" where
  "one_shape r =
     ((is_error_shape r \<and> \<not> is_series_shape r \<and> map fst r = [''error'']) \<or>
      (is_series_shape r \<and> \<not> is_error_shape r \<and> ''error'' \<notin> set (map fst r)))"

definition has_close :: "dataframe \<Rightarrow> bool" where
  "has_close d = (''Close'' \<in> set (df_columns d))"


definition last_n :: "nat \<Rightarrow> 'a list \<Rightarrow> 'a list" where
  "last_n n xs = drop (length xs - n) xs"


definition intraday_labels :: "row list \<Rightarrow> string list" where
  "intraday_labels rs = map (\<lambda>r. strftime_hm (fst r)) rs"

definition rounded_closes :: "row list \<Rightarrow> pyfloat list" where
  "rounded_closes rs = map (\<lambda>r. round2 (cell ''Close'' r)) rs"


definition ohlcv :: "string list" where
  "ohlcv = [''Open'', ''High'', ''Low'', ''Close'', ''Volume'']"

definition bar :: "date \<Rightarrow> int \<Rightarrow> int \<Rightarrow> pyfloat \<Rightarrow> row" where
  "bar d h mi c = (Timestamp d h mi, [(''Close'', c)])"

definition price_frame :: "row list \<Rightarrow> dataframe" where
  "price_frame rs = \<lparr>df_columns = ohlcv, df_rows = rs\<rparr>"

definition provider_returns :: "date \<Rightarrow> dataframe \<Rightarrow> world" where
  "provider_returns today data =
     \<lparr>yf_history = (\<lambda>t p i. Inr data),
      yf_info = (\<lambda>t. Inr [(''longName'', JStr ''Example Corp'')]),
      utcnow_date = today,
      generate_content = (\<lambda>p. Inr (''BUY'' @ [newline] @ ''Momentum is strong.''))\<rparr>"

definition provider_fails :: "date \<Rightarrow> exn \<Rightarrow> world" where
  "provider_fails today e =
     \<lparr>yf_history = (\<lambda>t p i. Inl e),
      yf_info = (\<lambda>t. Inl e),
      utcnow_date = today,
      generate_content = (\<lambda>p. Inl e)\<rparr>"


definition intraday_selection :: "date \<Rightarrow> row list \<Rightarrow> row list" where
  "intraday_selection y rs =
     (if filter (\<lambda>r. ts_date (fst r) = y) rs = []
      then filter (\<lambda>r. ts_date (fst r) = ts_date (fst (last rs))) rs
      else filter (\<lambda>r. ts_date (fst r) = y) rs)"

definition close_column :: "dataframe \<Rightarrow> pyfloat list" where
  "close_column d = map (cell ''Close'') (df_rows d)"

definition march_frame :: dataframe where
  "march_frame =
     price_frame [bar (Date 2024 3 1) 0 0 (float_of_decimal 17966 100),
                  bar (Date 2024 3 4) 0 0 (float_of_decimal 175105 1000),
                  bar (Date 2024 3 5) 0 0 (float_of_decimal 17012 100)]"

definition friday_frame :: dataframe where
  "friday_frame =
     price_frame [bar (Date 2024 3 1) 15 0 (float_of_decimal 179404 1000),
                  bar (Date 2024 3 1) 15 30 (float_of_decimal 17966 100)]"

definition saturday_frame :: dataframe where
  "saturday_frame =
     price_frame [bar (Date 2024 3 9) 10 0 (float_of_decimal 6825 100),
                  bar (Date 2024 3 9) 10 30 (float_of_decimal 68311 1000)]"

definition two_close_frame :: dataframe where
  "two_close_frame =
     price_frame [bar (Date 2024 1 30) 0 0 (float_of_decimal 100004 1000),
                  bar (Date 2024 1 31) 0 0 (float_of_decimal 100006 1000)]"

definition today_only_frame :: dataframe where
  "today_only_frame = price_frame [bar (Date 2024 3 5) 0 0 (float_of_decimal 17012 100)]"

definition no_close_frame :: dataframe where
  "no_close_frame =
     \<lparr>df_columns = [''Dividends''],
      df_rows = [(Timestamp (Date 2024 3 4) 0 0, [(''Dividends'', float_of_decimal 24 100)])]\<rparr>"

definition connection_reset :: exn where
  "connection_reset = PyExc ''ConnectionError'' ''connection reset by peer''"

lemma one_shape_error [simp]: "one_shape (error_dict m)"
  by (simp add: one_shape_def is_error_shape_def is_series_shape_def error_dict_def)

lemma one_shape_series:
  "length ls = length vs \<Longrightarrow> one_shape (series_dict t rg ls vs)"
  by (simp add: one_shape_def is_error_shape_def is_series_shape_def series_dict_def)

lemma df_getitem_length:
  "df_getitem d c = Inr xs \<Longrightarrow> length xs = length (df_rows d)"
  by (auto simp: df_getitem_def split: if_splits)

lemma df_index_length [simp]: "length (df_index d) = length (df_rows d)"
  by (simp add: df_index_def)

lemma format_daily_shape: "one_shape (format_daily_data w t)"
  by (auto simp: format_daily_data_def format_daily_try_def Let_def
        dest!: df_getitem_length intro!: one_shape_series
        split: sum.splits option.splits)

lemma format_intraday_shape: "one_shape (format_intraday_data w t)"
  by (auto simp: format_intraday_data_def format_intraday_try_def Let_def
        dest!: df_getitem_length intro!: one_shape_series
        split: sum.splits option.splits if_splits)

lemma format_monthly_shape: "one_shape (format_monthly_data w t)"
  by (auto simp: format_monthly_data_def format_monthly_try_def Let_def
        dest!: df_getitem_length intro!: one_shape_series
        split: sum.splits option.splits if_splits)


lemma date_less_irrefl [simp]: "\<not> date_less d d"
  by (simp add: date_less_def)

lemma df_rows_where [simp]:
  "df_rows (df_where_date P d) = filter (\<lambda>r. P (ts_date (fst r))) (df_rows d)"
  by (simp add: df_where_date_def)

lemma df_columns_where [simp]: "df_columns (df_where_date P d) = df_columns d"
  by (simp add: df_where_date_def)

lemma df_rows_tail [simp]: "df_rows (df_tail n d) = last_n n (df_rows d)"
  by (simp add: df_tail_def last_n_def)

lemma df_columns_tail [simp]: "df_columns (df_tail n d) = df_columns d"
  by (simp add: df_tail_def)

lemma df_getitem_close:
  "has_close d \<Longrightarrow> df_getitem d ''Close'' = Inr (map (cell ''Close'') (df_rows d))"
  by (simp add: df_getitem_def has_close_def)

lemma has_close_where [simp]: "has_close (df_where_date P d) = has_close d"
  by (simp add: has_close_def)

lemma has_close_tail [simp]: "has_close (df_tail n d) = has_close d"
  by (simp add: has_close_def)

lemma has_close_columns: "has_close d \<Longrightarrow> df_columns d \<noteq> []"
  by (auto simp: has_close_def)



lemma set_last_n: "set (last_n n xs) \<subseteq> set xs"
  by (simp add: last_n_def set_drop_subset)


lemma get_stock_data_ok:
  "yf_history w t p i = Inr data \<Longrightarrow> get_stock_data w t p i = Some data"
  by (simp add: get_stock_data_def)

lemma get_stock_data_raised:
  "yf_history w t p i = Inl e \<Longrightarrow> get_stock_data w t p i = None"
  by (simp add: get_stock_data_def)

lemma df_getitem_no_close:
  "\<not> has_close d \<Longrightarrow> df_getitem d ''Close'' = Inl (KeyError ''Close'')"
  by (simp add: df_getitem_def has_close_def)

lemma not_has_close_where [simp]: "has_close (df_tail n (df_where_date P d)) = has_close d"
  by simp


lemma last_date_rows_nonempty:
  "rs \<noteq> [] \<Longrightarrow> filter (\<lambda>r. ts_date (fst r) = ts_date (fst (last rs))) rs \<noteq> []"
proof -
  assume "rs \<noteq> []"
  then have "last rs \<in> set rs" by simp
  then show ?thesis
    by (auto simp: filter_empty_conv)
qed

lemma intraday_selection_nonempty: "rs \<noteq> [] \<Longrightarrow> intraday_selection y rs \<noteq> []"
  by (simp add: intraday_selection_def last_date_rows_nonempty)

lemma format_intraday_try_cases:
  assumes "yf_history w t ''2d'' ''30m'' = Inr data" "\<not> df_empty data"
  shows "format_intraday_try w t =
           (case minus_one_day (utcnow_date w) of
              Inl e \<Rightarrow> Inl e
            | Inr y \<Rightarrow>
                if has_close data
                then Inr (series_dict t ''intraday''
                       (intraday_labels (intraday_selection y (df_rows data)))
                       (rounded_closes (intraday_selection y (df_rows data))))
                else Inl (KeyError ''Close''))"
proof -
  have g: "get_stock_data w t ''2d'' ''30m'' = Some data"
    using assms(1) by (rule get_stock_data_ok)
  have rows: "df_rows data \<noteq> []" and cols: "df_columns data \<noteq> []"
    using assms(2) by (simp_all add: df_empty_def)
  have lst: "py_last (map fst (df_rows data)) = Inr (fst (last (df_rows data)))"
    using rows by (simp add: py_last_def last_map)
  show ?thesis
  proof (cases "minus_one_day (utcnow_date w)")
    case (Inl e)
    then show ?thesis
      unfolding format_intraday_try_def g using assms(2) by (simp add: Let_def)
  next
    case (Inr y)
    note my = this
    have sel: "filter (\<lambda>r. ts_date (fst r) = ts_date (fst (last (df_rows data))))
                 (df_rows data) \<noteq> []"
      using rows by (rule last_date_rows_nonempty)
    show ?thesis
    proof (cases "has_close data")
      case True
      then show ?thesis
        unfolding format_intraday_try_def g
        using assms(2) rows cols sel
        by (simp add: Let_def my df_empty_def lst df_getitem_close df_index_def
              intraday_selection_def intraday_labels_def rounded_closes_def o_def)
    next
      case False
      then show ?thesis
        unfolding format_intraday_try_def g
        using assms(2) rows cols sel
        by (simp add: Let_def my df_empty_def lst df_getitem_no_close df_index_def
              intraday_selection_def)
    qed
  qed
qed

lemma format_monthly_try_cases:
  assumes "yf_history w t ''1mo'' ''1d'' = Inr data" "\<not> df_empty data"
  shows "format_monthly_try w t =
           (if has_close data
            then Inr (series_dict t ''monthly'' [strftime_ym (fst (last (df_rows data)))]
                   [round2 (series_mean (close_column data))])
            else Inl (KeyError ''Close''))"
proof -
  have g: "get_stock_data w t ''1mo'' ''1d'' = Some data"
    using assms(1) by (rule get_stock_data_ok)
  have rows: "df_rows data \<noteq> []"
    using assms(2) by (simp add: df_empty_def)
  have lst: "py_last (df_index data) = Inr (fst (last (df_rows data)))"
    using rows by (simp add: py_last_def df_index_def last_map)
  show ?thesis
    unfolding format_monthly_try_def g
    using assms(2)
    by (simp add: Let_def lst df_getitem_close df_getitem_no_close close_column_def)
qed


lemma series_ne_error [simp]:
  "series_dict t rg ls vs \<noteq> error_dict m" "error_dict m \<noteq> series_dict t rg ls vs"
  by (simp_all add: series_dict_def error_dict_def)

lemma error_dict_eq [simp]: "(error_dict a = error_dict b) = (a = b)"
  by (simp add: error_dict_def)

lemma minus_one_day_raises: "minus_one_day d = Inl e \<Longrightarrow> e = OverflowError"
  by (auto simp: minus_one_day_def split: if_splits)

lemma format_daily_try_no_data:
  "yf_history w t ''1mo'' ''1d'' = Inl e \<or>
   (yf_history w t ''1mo'' ''1d'' = Inr data \<and> df_empty data) \<Longrightarrow>
   format_daily_try w t = Inr (error_dict ''No data available'')"
  unfolding format_daily_try_def get_stock_data_def by auto

lemma format_intraday_try_no_data:
  "yf_history w t ''2d'' ''30m'' = Inl e \<or>
   (yf_history w t ''2d'' ''30m'' = Inr data \<and> df_empty data) \<Longrightarrow>
   format_intraday_try w t = Inr (error_dict ''No data available'')"
  unfolding format_intraday_try_def get_stock_data_def by auto

lemma format_monthly_try_no_data:
  "yf_history w t ''1mo'' ''1d'' = Inl e \<or>
   (yf_history w t ''1mo'' ''1d'' = Inr data \<and> df_empty data) \<Longrightarrow>
   format_monthly_try w t = Inr (error_dict ''No data available'')"
  unfolding format_monthly_try_def get_stock_data_def by auto

text \<open>
  Claim C1. Whatever the provider answers, each of the three formatters returns either a
  success object whose labels, values and count agree in length, or an object holding
  nothing but an error string; no result has the success fields and an error field.
\<close>

theorem formatter_result_shape:
  "one_shape (format_daily_data w t) \<and>
   one_shape (format_intraday_data w t) \<and>
   one_shape (format_monthly_data w t)"
  by (simp add: format_daily_shape format_intraday_shape format_monthly_shape)

theorem formatter_result_shape_witness:
  "one_shape (format_daily_data (provider_returns (Date 2024 3 5) march_frame) ''AAPL'') \<and>
   one_shape (format_intraday_data (provider_returns (Date 2024 3 5) march_frame) ''AAPL'') \<and>
   one_shape (format_monthly_data (provider_returns (Date 2024 3 5) march_frame) ''AAPL'') \<and>
   is_series_shape (format_daily_data (provider_returns (Date 2024 3 5) march_frame) ''AAPL'') \<and>
   is_error_shape (format_daily_data (provider_fails (Date 2024 3 5) connection_reset) ''AAPL'')"
proof -
  have s: "is_series_shape
             (format_daily_data (provider_returns (Date 2024 3 5) march_frame) ''AAPL'')"
    by code_simp
  have e: "is_error_shape
             (format_daily_data (provider_fails (Date 2024 3 5) connection_reset) ''AAPL'')"
    by code_simp
  show ?thesis
    using formatter_result_shape [of "provider_returns (Date 2024 3 5) march_frame" "''AAPL''"]
      s e
    by blast
qed





end
